theory Spec2Isabelle
  imports Main "HOL-Library.Sublist"
begin

section \<open>The exclusion filter (package devbox, \<open>exclude\<close>)\<close>

text \<open>
  \<^verbatim>\<open>func exclude(s []string, elems []string) []string\<close> first builds the map
  \<open>excluded\<close> by one pass over \<open>elems\<close> (every element is stored with the value
  \<open>true\<close>), then appends to \<open>filtered\<close> every element of \<open>s\<close> whose lookup in
  \<open>excluded\<close> is false. A Go map lookup of a missing key yields the zero value
  \<open>false\<close>; \<open>lookupBool\<close> writes that default out.
\<close>

fun buildExcluded :: "(string \<rightharpoonup> bool) \<Rightarrow> string list \<Rightarrow> (string \<rightharpoonup> bool)" where
  "buildExcluded excluded [] = excluded"
| "buildExcluded excluded (ex # elems) = buildExcluded (excluded(ex \<mapsto> True)) elems"

definition lookupBool :: "(string \<rightharpoonup> bool) \<Rightarrow> string \<Rightarrow> bool" where
  "lookupBool m k = (case m k of None \<Rightarrow> False | Some b \<Rightarrow> b)"

fun filterLoop :: "(string \<rightharpoonup> bool) \<Rightarrow> string list \<Rightarrow> string list \<Rightarrow> string list" where
  "filterLoop excluded filtered [] = filtered"
| "filterLoop excluded filtered (str # s) =
     (if \<not> lookupBool excluded str
      then filterLoop excluded (filtered @ [str]) s
      else filterLoop excluded filtered s)"

definition exclude :: "string list \<Rightarrow> string list \<Rightarrow> string list" where
  "exclude s elems = filterLoop (buildExcluded Map.empty elems) [] s"

section \<open>Go library functions used by package shell\<close>

text \<open>
  Go strings and byte slices are byte sequences; they are modelled as \<open>string\<close>
  (a list of 8-bit characters). The functions of this section are those of the Go
  standard library that \<^verbatim>\<open>shell.go\<close> calls, for a Unix target (separator \<open>/\<close>, no
  volume names).
\<close>

subsection \<open>\<^verbatim>\<open>strings.TrimSpace\<close> and \<^verbatim>\<open>bytes.TrimSpace\<close>\<close>

text \<open>
  Both remove every leading and then every trailing white-space rune, as defined by
  \<^verbatim>\<open>unicode.IsSpace\<close>: the six ASCII characters tab, line feed, vertical tab, form
  feed, carriage return and space, and the code points U+0085, U+00A0, U+1680,
  U+2000 to U+200A, U+2028, U+2029, U+202F, U+205F and U+3000. \<open>spaceRunes\<close> lists
  their UTF-8 encodings. A rune is decoded at the front of the text exactly when its
  encoding is a prefix of the text, and at the end exactly when it is a suffix.
\<close>

definition spaceRunes :: "string list" where
  "spaceRunes =
    [[CHR 0x09], [CHR 0x0A], [CHR 0x0B], [CHR 0x0C], [CHR 0x0D], [CHR 0x20],
     [CHR 0xC2, CHR 0x85], [CHR 0xC2, CHR 0xA0],
     [CHR 0xE1, CHR 0x9A, CHR 0x80],
     [CHR 0xE2, CHR 0x80, CHR 0x80], [CHR 0xE2, CHR 0x80, CHR 0x81],
     [CHR 0xE2, CHR 0x80, CHR 0x82], [CHR 0xE2, CHR 0x80, CHR 0x83],
     [CHR 0xE2, CHR 0x80, CHR 0x84], [CHR 0xE2, CHR 0x80, CHR 0x85],
     [CHR 0xE2, CHR 0x80, CHR 0x86], [CHR 0xE2, CHR 0x80, CHR 0x87],
     [CHR 0xE2, CHR 0x80, CHR 0x88], [CHR 0xE2, CHR 0x80, CHR 0x89],
     [CHR 0xE2, CHR 0x80, CHR 0x8A],
     [CHR 0xE2, CHR 0x80, CHR 0xA8], [CHR 0xE2, CHR 0x80, CHR 0xA9],
     [CHR 0xE2, CHR 0x80, CHR 0xAF],
     [CHR 0xE2, CHR 0x81, CHR 0x9F],
     [CHR 0xE3, CHR 0x80, CHR 0x80]]"

definition leadingSpace :: "string \<Rightarrow> string option" where
  "leadingSpace s = find (\<lambda>e. prefix e s) spaceRunes"

definition trailingSpace :: "string \<Rightarrow> string option" where
  "trailingSpace s = find (\<lambda>e. suffix e s) spaceRunes"

lemma spaceRunes_nonempty: "e \<in> set spaceRunes \<Longrightarrow> 0 < length e"
  by (auto simp: spaceRunes_def)

lemma leadingSpace_shorter:
  "leadingSpace s = Some e \<Longrightarrow> length (drop (length e) s) < length s"
proof -
  assume a: "leadingSpace s = Some e"
  then have m: "e \<in> set spaceRunes" and p: "prefix e s"
    by (auto simp: leadingSpace_def find_Some_iff)
  from p have "length e \<le> length s" by (rule prefix_length_le)
  with spaceRunes_nonempty [OF m] have "length s - length e < length s" by arith
  then show ?thesis by simp
qed

lemma trailingSpace_shorter:
  "trailingSpace s = Some e \<Longrightarrow> length (take (length s - length e) s) < length s"
proof -
  assume a: "trailingSpace s = Some e"
  then have m: "e \<in> set spaceRunes" and p: "suffix e s"
    by (auto simp: trailingSpace_def find_Some_iff)
  from p have "length e \<le> length s" by (rule suffix_length_le)
  with spaceRunes_nonempty [OF m] have "length s - length e < length s" by arith
  then show ?thesis by simp
qed

function TrimLeftSpace :: "string \<Rightarrow> string" where
  "TrimLeftSpace s =
     (case leadingSpace s of
        None \<Rightarrow> s
      | Some e \<Rightarrow> TrimLeftSpace (drop (length e) s))"
  by pat_completeness auto
termination
  by (relation "measure length") (auto dest: leadingSpace_shorter)

function TrimRightSpace :: "string \<Rightarrow> string" where
  "TrimRightSpace s =
     (case trailingSpace s of
        None \<Rightarrow> s
      | Some e \<Rightarrow> TrimRightSpace (take (length s - length e) s))"
  by pat_completeness auto
termination
  by (relation "measure length") (auto dest: trailingSpace_shorter)

declare TrimLeftSpace.simps [simp del] TrimRightSpace.simps [simp del]

definition TrimSpace :: "string \<Rightarrow> string" where
  "TrimSpace s = TrimRightSpace (TrimLeftSpace s)"

text \<open>
  \<open>asciiSpace\<close> is the table of the same name in package \<^verbatim>\<open>strings\<close>: the six
  white-space characters of ASCII.
\<close>

definition asciiSpace :: "char \<Rightarrow> bool" where
  "asciiSpace c = (c = CHR 0x09 \<or> c = CHR 0x0A \<or> c = CHR 0x0B \<or> c = CHR 0x0C
                   \<or> c = CHR 0x0D \<or> c = CHR 0x20)"

subsection \<open>\<^verbatim>\<open>strings.Join\<close> and package \<^verbatim>\<open>path/filepath\<close> (Unix)\<close>

fun stringsJoin :: "string list \<Rightarrow> string \<Rightarrow> string" where
  "stringsJoin [] sep = []"
| "stringsJoin [e] sep = e"
| "stringsJoin (e # es) sep = e @ sep @ stringsJoin es sep"

definition Separator :: char where
  "Separator = CHR ''/''"

text \<open>
  \<^verbatim>\<open>filepath.Clean\<close> reads the path from left to right and writes into a buffer
  \<open>out\<close>; \<open>dotdot\<close> is the length of the prefix of the buffer that a \<open>..\<close> element
  may not remove. On a \<open>..\<close> element that can backtrack, the write index is
  decremented once, and then further while it is above \<open>dotdot\<close> and the byte at
  the write index (the one just given up) is not a separator: \<open>backtrack\<close> takes
  the buffer below the write index and that byte.
\<close>

function backtrack :: "nat \<Rightarrow> string \<Rightarrow> char \<Rightarrow> string" where
  "backtrack dotdot out c =
     (if length out > dotdot \<and> c \<noteq> Separator
      then backtrack dotdot (butlast out) (last out)
      else out)"
  by pat_completeness auto
termination
  by (relation "measure (\<lambda>(dotdot, out, c). length out)") auto

declare backtrack.simps [simp del]

lemma length_dropWhile_less: "length (dropWhile P xs) < Suc (length xs)"
  by (rule le_imp_less_Suc [OF length_dropWhile_le])

function cleanLoop :: "bool \<Rightarrow> string \<Rightarrow> nat \<Rightarrow> string \<Rightarrow> string" where
  "cleanLoop rooted out dotdot [] = out"
| "cleanLoop rooted out dotdot (c # rest) =
     (if c = Separator then
        \<comment> \<open>empty path element\<close>
        cleanLoop rooted out dotdot rest
      else if c = CHR ''.'' \<and> (rest = [] \<or> hd rest = Separator) then
        \<comment> \<open>\<open>.\<close> element\<close>
        cleanLoop rooted out dotdot rest
      else if c = CHR ''.'' \<and> hd rest = CHR ''.''
              \<and> (tl rest = [] \<or> hd (tl rest) = Separator) then
        \<comment> \<open>\<open>..\<close> element: remove to last separator\<close>
        (if length out > dotdot then
           cleanLoop rooted (backtrack dotdot (butlast out) (last out)) dotdot (tl rest)
         else if \<not> rooted then
           cleanLoop rooted
             ((if length out > 0 then out @ [Separator] else out) @ ''..'')
             (length ((if length out > 0 then out @ [Separator] else out) @ ''..''))
             (tl rest)
         else cleanLoop rooted out dotdot (tl rest))
      else
        \<comment> \<open>real path element: add slash if needed, copy element\<close>
        cleanLoop rooted
          ((if rooted \<and> length out \<noteq> 1 \<or> \<not> rooted \<and> length out \<noteq> 0
            then out @ [Separator] else out)
           @ takeWhile (\<lambda>x. x \<noteq> Separator) (c # rest))
          dotdot
          (dropWhile (\<lambda>x. x \<noteq> Separator) (c # rest)))"
  by pat_completeness auto
termination
  by (relation "measure (\<lambda>(rooted, out, dotdot, p). length p)")
     (auto simp: length_dropWhile_less)

definition Clean :: "string \<Rightarrow> string" where
  "Clean path =
     (if path = [] then ''.''
      else
        let rooted = (hd path = Separator);
            out = (if rooted
                   then cleanLoop rooted [Separator] 1 (tl path)
                   else cleanLoop rooted [] 0 path)
        in if length out = 0 then ''.'' else out)"



text \<open>
  \<^verbatim>\<open>filepath.Base\<close>: the last element of the path, after removing trailing
  separators; \<open>.\<close> for the empty path and \<open>/\<close> for a path of separators only.
\<close>

definition stripTrailingSeparators :: "string \<Rightarrow> string" where
  "stripTrailingSeparators path = rev (dropWhile (\<lambda>x. x = Separator) (rev path))"

definition lastElement :: "string \<Rightarrow> string" where
  "lastElement path = rev (takeWhile (\<lambda>x. x \<noteq> Separator) (rev path))"

definition Base :: "string \<Rightarrow> string" where
  "Base path =
     (if path = [] then ''.''
      else
        let path1 = stripTrailingSeparators path;
            path2 = lastElement path1
        in if path2 = [] then [Separator] else path2)"

text \<open>
  \<^verbatim>\<open>filepath.Dir\<close>: everything up to and including the last separator, cleaned.
\<close>

definition Dir :: "string \<Rightarrow> string" where
  "Dir path = Clean (rev (dropWhile (\<lambda>x. x \<noteq> Separator) (rev path)))"

text \<open>
  \<^verbatim>\<open>filepath.Join\<close>: leading empty elements are skipped; the others are joined
  with the separator and the result is cleaned; no non-empty element gives \<open>""\<close>.
\<close>

definition Join :: "string list \<Rightarrow> string" where
  "Join elem =
     (case dropWhile (\<lambda>e. e = []) elem of
        [] \<Rightarrow> []
      | e # es \<Rightarrow> Clean (stringsJoin (e # es) [Separator]))"


section \<open>The process environment and the operating system\<close>

text \<open>
  A Go \<^verbatim>\<open>error\<close> value is modelled by its message; \<open>IndexPanic\<close> stands for the
  run-time panic of an index expression that is out of range.
\<close>

datatype error = Err string | IndexPanic

fun errorMessage :: "error \<Rightarrow> string" where
  "errorMessage (Err m) = m"
| "errorMessage IndexPanic = ''index out of range''"

text \<open>
  Everything \<^verbatim>\<open>shell.go\<close> asks of the operating system during one bootstrap is a
  field of the record \<open>os\<close>: \<open>getenv\<close> is \<^verbatim>\<open>os.Getenv\<close> (the empty string for an
  unset variable), \<open>userHomeDir\<close> is the result of \<^verbatim>\<open>os.UserHomeDir\<close>, \<open>readFile\<close>
  is \<^verbatim>\<open>os.ReadFile\<close>, \<open>mkdirTemp\<close> is \<^verbatim>\<open>os.MkdirTemp\<close> (directory and pattern
  given, path of the new directory returned) and \<open>writeFile\<close> is \<^verbatim>\<open>os.WriteFile\<close>
  (path, contents and permission bits given; \<open>None\<close> is the nil error). The
  theorems quantify over the whole record, that is over every behaviour of the
  operating system. Calls with an effect on or through the file system are
  recorded, in order, in a list of \<open>os_call\<close>.
\<close>

record os =
  getenv :: "string \<Rightarrow> string"
  userHomeDir :: "error + string"
  readFile :: "string \<Rightarrow> error + string"
  mkdirTemp :: "string \<Rightarrow> string \<Rightarrow> error + string"
  writeFile :: "string \<Rightarrow> string \<Rightarrow> nat \<Rightarrow> error option"

datatype os_call =
    ReadFile string
  | MkdirTemp string string
  | WriteFile string string nat

section \<open>Package shell\<close>

datatype name = shUnknown | shBash | shZsh | shKsh | shPosix

record Shell =
  name :: name
  path :: string
  initFile :: string
  devboxInitFile :: string
  PreInitHook :: string
  PostInitHook :: string

text \<open>
  \<^verbatim>\<open>rcfilePath\<close>: the rcfile in the user's home directory, or the empty string when
  the home directory cannot be determined.
\<close>

definition rcfilePath :: "os \<Rightarrow> string \<Rightarrow> string" where
  "rcfilePath env basename =
     (case userHomeDir env of
        Inl err \<Rightarrow> []
      | Inr home \<Rightarrow> Join [home, basename])"

text \<open>
  \<^verbatim>\<open>Detect\<close>. The struct literal \<^verbatim>\<open>&Shell{path: filepath.Clean(path)}\<close> leaves every
  other field at its zero value (\<open>shUnknown\<close> is the empty name). The base name is
  taken from the value of \<^verbatim>\<open>SHELL\<close> as it is, not from the cleaned path. The index
  expression \<^verbatim>\<open>base[0]\<close> panics on an empty base name. The calls of \<^verbatim>\<open>debug.Log\<close>
  do not change the result and are left out.
\<close>

text \<open>
  \<open>classify\<close> is the \<^verbatim>\<open>switch base\<close> statement of \<^verbatim>\<open>Detect\<close>, applied to the Shell
  under construction.
\<close>

definition classify :: "os \<Rightarrow> Shell \<Rightarrow> string \<Rightarrow> Shell" where
  "classify env sh base =
     (if base = ''bash'' then
        sh\<lparr>name := shBash, initFile := rcfilePath env ''.bashrc''\<rparr>
      else if base = ''zsh'' then
        sh\<lparr>name := shZsh, initFile := rcfilePath env ''.zshrc''\<rparr>
      else if base = ''ksh'' then
        sh\<lparr>name := shKsh, initFile := rcfilePath env ''.kshrc''\<rparr>
      else if base = ''dash'' \<or> base = ''ash'' \<or> base = ''sh'' then
        (let sh1 = sh\<lparr>name := shPosix, initFile := getenv env ''ENV''\<rparr>
         in if initFile sh1 = [] then sh1\<lparr>initFile := ''.shinit''\<rparr> else sh1)
      else
        sh\<lparr>name := shUnknown\<rparr>)"

definition Detect :: "os \<Rightarrow> error + Shell" where
  "Detect env =
     (let path0 = getenv env ''SHELL'' in
      if path0 = [] then Inl (Err ''unable to detect the current shell'')
      else
        let sh = \<lparr>name = shUnknown, path = Clean path0, initFile = [],
                  devboxInitFile = [], PreInitHook = [], PostInitHook = []\<rparr>;
            base = Base path0
        in case base of
             [] \<Rightarrow> Inl IndexPanic
           | b0 # bs \<Rightarrow>
               Inr (classify env sh (if b0 = CHR ''-'' then bs else base)))"

text \<open>
  \<^verbatim>\<open>buildInitFile\<close>. The result \<^verbatim>\<open>nil, nil\<close> is \<open>Inr None\<close>; an error is \<open>Inl\<close>;
  the second component lists the calls made to the operating system. The four
  raw string literals of the source are the four marker constants.
\<close>

definition preBegin :: string where
  "preBegin = [CHR 0x0A] @ ''# Begin Devbox Pre-init Hook'' @ [CHR 0x0A, CHR 0x0A]"

definition preEnd :: string where
  "preEnd = [CHR 0x0A, CHR 0x0A] @ ''# End Devbox Pre-init Hook'' @ [CHR 0x0A, CHR 0x0A]"

definition postBegin :: string where
  "postBegin = [CHR 0x0A, CHR 0x0A] @ ''# Begin Devbox Pre-init Hook'' @ [CHR 0x0A, CHR 0x0A]"

definition postEnd :: string where
  "postEnd = [CHR 0x0A, CHR 0x0A] @ ''# End Devbox Post-init Hook''"

definition buildInitFile :: "os \<Rightarrow> Shell \<Rightarrow> (error + string option) \<times> os_call list" where
  "buildInitFile env s =
     (let prehook = TrimSpace (PreInitHook s);
          posthook = TrimSpace (PostInitHook s)
      in if prehook = [] \<and> posthook = [] then (Inr None, [])
         else
           let buf1 = (if prehook \<noteq> [] then preBegin @ prehook @ preEnd else [])
           in case readFile env (initFile s) of
                Inl err \<Rightarrow> (Inl err, [ReadFile (initFile s)])
              | Inr contents \<Rightarrow>
                  let initFile1 = TrimSpace contents;
                      buf2 = (if length initFile1 > 0 then buf1 @ initFile1 else buf1);
                      buf3 = (if posthook \<noteq> []
                              then buf2 @ postBegin @ posthook @ postEnd else buf2);
                      b = TrimSpace buf3
                  in if length b = 0 then (Inr None, [ReadFile (initFile s)])
                     else (Inr (Some (b @ [CHR 0x0A])), [ReadFile (initFile s)]))"

text \<open>
  \<^verbatim>\<open>writeHooks\<close> returns its error (\<open>None\<close> for nil), the Shell as the method
  leaves it, and the calls made. The nil slice that \<^verbatim>\<open>buildInitFile\<close> returns for
  "no content" is written like any other slice: as zero bytes. The permission
  \<^verbatim>\<open>0600\<close> is octal.
\<close>

definition bytesOf :: "string option \<Rightarrow> string" where
  "bytesOf initContents = (case initContents of None \<Rightarrow> [] | Some b \<Rightarrow> b)"

definition writeHooks :: "os \<Rightarrow> Shell \<Rightarrow> error option \<times> Shell \<times> os_call list" where
  "writeHooks env s =
     (case buildInitFile env s of
        (Inl err, calls) \<Rightarrow> (Some err, s, calls)
      | (Inr initContents, calls) \<Rightarrow>
          (case mkdirTemp env [] ''devbox'' of
             Inl err \<Rightarrow>
               (Some (Err (''create temp dir for shell init file: '' @ errorMessage err)),
                s, calls @ [MkdirTemp [] ''devbox''])
           | Inr tmp \<Rightarrow>
               let file = Join [tmp, Base (initFile s)]
               in (case writeFile env file (bytesOf initContents) 384 of
                     Some err \<Rightarrow>
                       (Some (Err (''write to shell init file: '' @ errorMessage err)),
                        s,
                        calls @ [MkdirTemp [] ''devbox'',
                                 WriteFile file (bytesOf initContents) 384])
                   | None \<Rightarrow>
                       (None, s\<lparr>devboxInitFile := file\<rparr>,
                        calls @ [MkdirTemp [] ''devbox'',
                                 WriteFile file (bytesOf initContents) 384]))))"

text \<open>
  \<^verbatim>\<open>ExecCommand\<close> returns the command, the Shell as the method leaves it, and the
  calls made. \<^verbatim>\<open>fmt.Sprintf\<close> with \<^verbatim>\<open>%s\<close> verbs is concatenation; the double-quote
  characters of the format strings are written \<open>CHR 0x22\<close>.
\<close>

definition plainExec :: "Shell \<Rightarrow> string" where
  "plainExec s = ''exec '' @ path s"

definition ExecCommand :: "os \<Rightarrow> Shell \<Rightarrow> string \<times> Shell \<times> os_call list" where
  "ExecCommand env s =
     (case writeHooks env s of
        (err, s1, calls) \<Rightarrow>
          (if err \<noteq> None \<or> devboxInitFile s1 = [] then plainExec s1
           else
             (case name s1 of
                shBash \<Rightarrow>
                  ''exec /usr/bin/env ORIGINAL_PATH='' @ [CHR 0x22] @ getenv env ''PATH'' @ [CHR 0x22]
                  @ '' '' @ path s1 @ '' --rcfile '' @ [CHR 0x22] @ devboxInitFile s1 @ [CHR 0x22]
              | shZsh \<Rightarrow>
                  ''exec /usr/bin/env ORIGINAL_PATH='' @ [CHR 0x22] @ getenv env ''PATH'' @ [CHR 0x22]
                  @ '' ZDOTDIR='' @ [CHR 0x22] @ Dir (devboxInitFile s1) @ [CHR 0x22] @ '' '' @ path s1
              | shKsh \<Rightarrow>
                  ''exec /usr/bin/env ORIGINAL_PATH='' @ [CHR 0x22] @ getenv env ''PATH'' @ [CHR 0x22]
                  @ '' ENV='' @ [CHR 0x22] @ devboxInitFile s1 @ [CHR 0x22] @ '' '' @ path s1 @ '' ''
              | shPosix \<Rightarrow>
                  ''exec /usr/bin/env ORIGINAL_PATH='' @ [CHR 0x22] @ getenv env ''PATH'' @ [CHR 0x22]
                  @ '' ENV='' @ [CHR 0x22] @ devboxInitFile s1 @ [CHR 0x22] @ '' '' @ path s1 @ '' ''
              | shUnknown \<Rightarrow> plainExec s1),
           s1, calls))"

section \<open>Environments used to state and instantiate the theorems\<close>

text \<open>\<open>setenv env k v\<close> is the environment \<open>env\<close> with the variable \<open>k\<close> set to \<open>v\<close>.\<close>

definition setenv :: "os \<Rightarrow> string \<Rightarrow> string \<Rightarrow> os" where
  "setenv env k v = env\<lparr>getenv := (getenv env)(k := v)\<rparr>"

text \<open>
  \<open>withHooks s pre post\<close> is what a caller does between \<^verbatim>\<open>Detect\<close> and
  \<^verbatim>\<open>ExecCommand\<close>: it assigns the two exported fields.
\<close>

definition withHooks :: "Shell \<Rightarrow> string \<Rightarrow> string \<Rightarrow> Shell" where
  "withHooks s pre post = s\<lparr>PreInitHook := pre, PostInitHook := post\<rparr>"

text \<open>
  An example host: the home directory is \<open>/home/u\<close>, \<^verbatim>\<open>PATH\<close> is \<open>/usr/bin:/bin\<close>,
  no other variable is set, no file can be read, \<^verbatim>\<open>os.MkdirTemp\<close> creates
  \<open>/tmp/devbox123\<close>, and a write fails exactly when its target is that directory
  itself. \<open>exampleOSrc\<close> is the same host on which every read returns the
  bytes \<open>export X=1\<close>.
\<close>

definition exampleOS :: os where
  "exampleOS =
     \<lparr>getenv = (\<lambda>k. if k = ''PATH'' then ''/usr/bin:/bin'' else []),
      userHomeDir = Inr ''/home/u'',
      readFile = (\<lambda>p. Inl (Err ''no such file or directory'')),
      mkdirTemp = (\<lambda>dir pattern. Inr ''/tmp/devbox123''),
      writeFile = (\<lambda>p contents perm.
         if p = ''/tmp/devbox123'' then Some (Err ''is a directory'') else None)\<rparr>"

definition exampleOSrc :: os where
  "exampleOSrc = exampleOS\<lparr>readFile := (\<lambda>p. Inr ''export X=1'')\<rparr>"

text \<open>
  Shells as \<^verbatim>\<open>Detect\<close> returns them on the example host for the signals
  \<open>/bin/bash\<close>, \<open>/bin/zsh\<close> and \<open>/usr/bin/fish\<close>.
\<close>

definition exampleBash :: Shell where
  "exampleBash =
     \<lparr>name = shBash, path = ''/bin/bash'', initFile = ''/home/u/.bashrc'',
      devboxInitFile = [], PreInitHook = [], PostInitHook = []\<rparr>"

definition exampleZsh :: Shell where
  "exampleZsh =
     \<lparr>name = shZsh, path = ''/bin/zsh'', initFile = ''/home/u/.zshrc'',
      devboxInitFile = [], PreInitHook = [], PostInitHook = []\<rparr>"

definition exampleFish :: Shell where
  "exampleFish =
     \<lparr>name = shUnknown, path = ''/usr/bin/fish'', initFile = [],
      devboxInitFile = [], PreInitHook = [], PostInitHook = []\<rparr>"

section \<open>Facts about the library functions\<close>

text \<open>
  The models agree with the results that the Go documentation and the tests of the
  standard library give for these inputs.
\<close>

lemma Clean_examples:
  "Clean [] = ''.''"
  "Clean ''/bin/zsh'' = ''/bin/zsh''"
  "Clean ''abc//def//ghi'' = ''abc/def/ghi''"
  "Clean ''abc/def/'' = ''abc/def''"
  "Clean ''abc/./def'' = ''abc/def''"
  "Clean ''abc/def/../ghi/../jkl'' = ''abc/jkl''"
  "Clean ''abc/def/../../..'' = ''..''"
  "Clean ''/abc/def/../../..'' = ''/''"
  "Clean ''abc/../../././../def'' = ''../../def''"
  "Clean ''/../abc'' = ''/abc''"
  "Clean ''//abc'' = ''/abc''"
  "Clean ''abc/./../def'' = ''def''"
  by code_simp+

lemma Base_examples:
  "Base [] = ''.''"
  "Base ''.'' = ''.''"
  "Base ''/.'' = ''.''"
  "Base ''/'' = ''/''"
  "Base ''////'' = ''/''"
  "Base ''x/'' = ''x''"
  "Base ''abc'' = ''abc''"
  "Base ''abc/def'' = ''def''"
  "Base ''a/b/.x'' = ''.x''"
  "Base ''a/b/c.'' = ''c.''"
  by code_simp+

lemma Dir_examples:
  "Dir [] = ''.''"
  "Dir ''.'' = ''.''"
  "Dir ''/.'' = ''/''"
  "Dir ''/'' = ''/''"
  "Dir ''/foo'' = ''/''"
  "Dir ''x/'' = ''x''"
  "Dir ''abc'' = ''.''"
  "Dir ''abc/def'' = ''abc''"
  "Dir ''a/b/.x'' = ''a/b''"
  "Dir ''abc////def'' = ''abc''"
  by code_simp+

lemma Join_examples:
  "Join [] = []"
  "Join [[]] = []"
  "Join [''a''] = ''a''"
  "Join [''a'', ''b''] = ''a/b''"
  "Join [''a'', []] = ''a''"
  "Join [[], ''b''] = ''b''"
  "Join [''/'', ''a''] = ''/a''"
  "Join [''a/'', ''b''] = ''a/b''"
  "Join [[], []] = []"
  "Join [''/home/u'', ''.bashrc''] = ''/home/u/.bashrc''"
  by code_simp+

lemma TrimSpace_examples:
  "TrimSpace [] = []"
  "TrimSpace ''abc'' = ''abc''"
  "TrimSpace ([CHR 0x09, CHR 0x0A] @ '' a b '' @ [CHR 0x0D, CHR 0x0B, CHR 0x0C]) = ''a b''"
  "TrimSpace ([CHR 0xE2, CHR 0x80, CHR 0x83] @ ''x'' @ [CHR 0xC2, CHR 0x85]) = ''x''"
  "TrimSpace ([CHR 0x20, CHR 0xE3, CHR 0x80, CHR 0x80, CHR 0x20]) = []"
  "TrimSpace ([CHR 0x20, CHR 0xE2, CHR 0x80, CHR 0x8B, CHR 0x20]) = [CHR 0xE2, CHR 0x80, CHR 0x8B]"
  "TrimSpace ([CHR 0xC2, CHR 0x20]) = [CHR 0xC2]"
  by code_simp+

lemma Clean_nonempty: "Clean p \<noteq> []"
  by (simp add: Clean_def Let_def)

lemma Base_nonempty: "Base p \<noteq> []"
  by (simp add: Base_def Let_def)

lemma Base_Nil: "Base [] = ''.''"
  by (simp add: Base_def)

lemma Join_two_nonempty: "b \<noteq> [] \<Longrightarrow> Join [a, b] \<noteq> []"
  by (cases "a = []") (simp_all add: Join_def Clean_nonempty)

text \<open>
  Appending the element \<open>.\<close> to a path does not change what \<^verbatim>\<open>Clean\<close> makes of
  it: the loop skips the separator and the dot. Hence joining a directory with the
  base name of the empty path, which is \<open>.\<close>, gives the cleaned directory itself.
\<close>

lemma takeWhile_sep_app:
  "takeWhile (\<lambda>x. x \<noteq> Separator) (xs @ Separator # ys) = takeWhile (\<lambda>x. x \<noteq> Separator) xs"
  by (induction xs) auto

lemma dropWhile_sep_app:
  "dropWhile (\<lambda>x. x \<noteq> Separator) (xs @ Separator # ys)
     = (dropWhile (\<lambda>x. x \<noteq> Separator) xs) @ Separator # ys"
  by (induction xs) auto

lemma cleanLoop_dot_suffix:
  "cleanLoop rooted out dotdot (p @ Separator # ''.'') = cleanLoop rooted out dotdot p"
proof (induction rooted out dotdot p rule: cleanLoop.induct)
  case (1 rooted out dotdot)
  then show ?case by (simp add: Separator_def)
next
  case (2 rooted out dotdot c rest)
  show ?case
  proof (cases "c = Separator")
    case True
    with 2 show ?thesis by simp
  next
    case nsep: False
    show ?thesis
    proof (cases "c = CHR ''.'' \<and> (rest = [] \<or> hd rest = Separator)")
      case True
      with nsep 2 show ?thesis by (cases rest) auto
    next
      case ndot: False
      show ?thesis
      proof (cases "c = CHR ''.'' \<and> hd rest = CHR ''.''
                    \<and> (tl rest = [] \<or> hd (tl rest) = Separator)")
        case True
        with nsep ndot have r: "rest \<noteq> []" by auto
        then obtain d rest' where rest: "rest = d # rest'" by (cases rest) auto
        with True nsep ndot 2 show ?thesis
          by (cases rest') (auto simp: Separator_def)
      next
        case False
        let ?P = "\<lambda>x. x \<noteq> Separator"
        let ?out = "(if rooted \<and> length out \<noteq> 1 \<or> \<not> rooted \<and> length out \<noteq> 0
            then out @ [Separator] else out) @ takeWhile ?P (c # rest)"
        from nsep ndot False
        have rhs: "cleanLoop rooted out dotdot (c # rest)
                = cleanLoop rooted ?out dotdot (dropWhile ?P (c # rest))"
          by (simp only: cleanLoop.simps if_False)
        have c2: "\<not> (c = CHR ''.'' \<and> (rest @ Separator # ''.'' = []
                    \<or> hd (rest @ Separator # ''.'') = Separator))"
          using ndot by (cases rest) auto
        have c3: "\<not> (c = CHR ''.'' \<and> hd (rest @ Separator # ''.'') = CHR ''.''
              \<and> (tl (rest @ Separator # ''.'') = []
                  \<or> hd (tl (rest @ Separator # ''.'')) = Separator))"
          using ndot False by (cases rest; cases "tl rest") auto
        have tw: "takeWhile ?P (c # rest @ Separator # ''.'') = takeWhile ?P (c # rest)"
          using takeWhile_sep_app [of "c # rest" "''.''"] by simp
        have dw: "dropWhile ?P (c # rest @ Separator # ''.'')
                = dropWhile ?P (c # rest) @ Separator # ''.''"
          using dropWhile_sep_app [of "c # rest" "''.''"] by simp
        from nsep c2 c3
        have lhs: "cleanLoop rooted out dotdot (c # rest @ Separator # ''.'')
                = cleanLoop rooted ?out dotdot (dropWhile ?P (c # rest) @ Separator # ''.'')"
          by (simp only: cleanLoop.simps if_False tw dw)
        from 2(6) [OF nsep ndot False] lhs rhs show ?thesis by simp
      qed
    qed
  qed
qed

lemma Join_tmp_dot: "Join [tmp, Base []] = Clean tmp"
proof (cases "tmp = []")
  case True
  then show ?thesis by (simp add: Join_def Base_def Clean_def Separator_def)
next
  case False
  then obtain c cs where t: "tmp = c # cs" by (cases tmp) auto
  have a: "cleanLoop r out dd (c # cs @ [Separator, CHR ''.'']) = cleanLoop r out dd (c # cs)"
    for r out dd
    using cleanLoop_dot_suffix [of r out dd "c # cs"] by simp
  have b: "cleanLoop r out dd (cs @ [Separator, CHR ''.'']) = cleanLoop r out dd cs"
    for r out dd
    using cleanLoop_dot_suffix [of r out dd cs] by simp
  have "Clean (tmp @ Separator # ''.'') = Clean tmp"
    unfolding t Clean_def by (simp add: Let_def a b del: cleanLoop.simps)
  with False show ?thesis by (simp add: Join_def Base_def)
qed
















text \<open>
  A text of ASCII white space only is trimmed to the empty text: such a hook counts
  as empty.
\<close>

lemma leadingSpace_ascii: "asciiSpace c \<Longrightarrow> leadingSpace (c # r) = Some [c]"
  unfolding asciiSpace_def
  by (elim disjE) (simp_all add: leadingSpace_def spaceRunes_def)

lemma TrimLeftSpace_Nil: "TrimLeftSpace [] = []"
  by (subst TrimLeftSpace.simps) (simp add: leadingSpace_def spaceRunes_def)

lemma TrimRightSpace_Nil: "TrimRightSpace [] = []"
  by (subst TrimRightSpace.simps) (simp add: trailingSpace_def spaceRunes_def)

lemma TrimLeftSpace_ascii: "list_all asciiSpace s \<Longrightarrow> TrimLeftSpace s = []"
proof (induction s)
  case Nil
  then show ?case by (simp add: TrimLeftSpace_Nil)
next
  case (Cons c s)
  then have c: "asciiSpace c" and s: "list_all asciiSpace s" by simp_all
  have "TrimLeftSpace (c # s) = TrimLeftSpace s"
    by (subst TrimLeftSpace.simps) (simp add: leadingSpace_ascii [OF c])
  with Cons.IH [OF s] show ?case by simp
qed

lemma TrimSpace_ascii_whitespace: "list_all asciiSpace s \<Longrightarrow> TrimSpace s = []"
  by (simp add: TrimSpace_def TrimLeftSpace_ascii TrimRightSpace_Nil)

text \<open>Trimming at a byte that starts or ends no white-space rune.\<close>

lemma leadingSpace_hash: "leadingSpace (CHR ''#'' # s) = None"
  by (simp add: leadingSpace_def spaceRunes_def)

lemma leadingSpace_newline: "leadingSpace (CHR 0x0A # s) = Some [CHR 0x0A]"
  by (simp add: leadingSpace_def spaceRunes_def)

lemma trailingSpace_one: "trailingSpace (s @ ''1'') = None"
  by (simp add: trailingSpace_def spaceRunes_def suffix_to_prefix)

lemma TrimLeftSpace_newline: "TrimLeftSpace (CHR 0x0A # s) = TrimLeftSpace s"
  by (subst TrimLeftSpace.simps) (simp add: leadingSpace_newline)

lemma TrimLeftSpace_hash: "TrimLeftSpace (CHR ''#'' # s) = CHR ''#'' # s"
  by (subst TrimLeftSpace.simps) (simp add: leadingSpace_hash)

lemma TrimRightSpace_one: "TrimRightSpace (s @ ''1'') = s @ ''1''"
  by (subst TrimRightSpace.simps) (simp add: trailingSpace_one)

lemma TrimSpace_export: "TrimSpace ''export X=1'' = ''export X=1''"
  by code_simp

lemma TrimSpace_pre_section:
  "TrimSpace (preBegin @ h @ preEnd @ ''export X=1'')
     = ''# Begin Devbox Pre-init Hook'' @ [CHR 0x0A, CHR 0x0A] @ h
       @ [CHR 0x0A, CHR 0x0A] @ ''# End Devbox Pre-init Hook'' @ [CHR 0x0A, CHR 0x0A]
       @ ''export X=1''"
proof -
  have l: "TrimLeftSpace (preBegin @ h @ preEnd @ ''export X=1'')
      = ''# Begin Devbox Pre-init Hook'' @ [CHR 0x0A, CHR 0x0A] @ h @ preEnd @ ''export X=1''"
    by (simp add: preBegin_def TrimLeftSpace_newline TrimLeftSpace_hash)
  have r: "TrimRightSpace ((''# Begin Devbox Pre-init Hook'' @ [CHR 0x0A, CHR 0x0A] @ h @ preEnd
              @ ''export X='') @ ''1'')
      = (''# Begin Devbox Pre-init Hook'' @ [CHR 0x0A, CHR 0x0A] @ h @ preEnd
              @ ''export X='') @ ''1''"
    by (rule TrimRightSpace_one)
  show ?thesis
    unfolding TrimSpace_def l using r by (simp add: preEnd_def)
qed

text \<open>
  The trimmed text is a contiguous part of the text. A text without a line feed
  occurs in a text only inside one of its lines; this locates the occurrences of
  the marker \<open># End Devbox Post-init Hook\<close> in the output of the composer.
\<close>

lemma prefix_before_char:
  "c \<notin> set m \<Longrightarrow> prefix m (zs @ c # ys) = prefix m zs"
  by (auto simp: prefix_append prefix_Cons)

lemma sublist_split_char:
  "c \<notin> set m \<Longrightarrow> sublist m (xs @ c # ys) = (sublist m xs \<or> sublist m ys)"
proof (induction xs)
  case Nil
  then show ?case by (cases m) (auto simp: sublist_Cons_right)
next
  case (Cons x xs)
  from Cons.prems have "prefix m ((x # xs) @ c # ys) = prefix m (x # xs)"
    by (rule prefix_before_char)
  with Cons show ?case by (auto simp: sublist_Cons_right)
qed

lemma TrimLeftSpace_suffix: "suffix (TrimLeftSpace s) s"
proof (induction s rule: TrimLeftSpace.induct)
  case (1 s)
  show ?case
  proof (cases "leadingSpace s")
    case None
    then show ?thesis by (subst TrimLeftSpace.simps) simp
  next
    case (Some e)
    from 1 [OF Some] have "suffix (TrimLeftSpace (drop (length e) s)) (drop (length e) s)" .
    moreover have "suffix (drop (length e) s) s" by (rule suffix_drop)
    ultimately have "suffix (TrimLeftSpace (drop (length e) s)) s" by (rule suffix_order.trans)
    with Some show ?thesis by (subst TrimLeftSpace.simps) simp
  qed
qed

lemma TrimRightSpace_prefix: "prefix (TrimRightSpace s) s"
proof (induction s rule: TrimRightSpace.induct)
  case (1 s)
  show ?case
  proof (cases "trailingSpace s")
    case None
    then show ?thesis by (subst TrimRightSpace.simps) simp
  next
    case (Some e)
    from 1 [OF Some]
    have "prefix (TrimRightSpace (take (length s - length e) s)) (take (length s - length e) s)" .
    moreover have "prefix (take (length s - length e) s) s" by (rule take_is_prefix)
    ultimately have "prefix (TrimRightSpace (take (length s - length e) s)) s"
      by (rule prefix_order.trans)
    with Some show ?thesis by (subst TrimRightSpace.simps) simp
  qed
qed

lemma TrimSpace_sublist: "sublist (TrimSpace s) s"
proof -
  have "sublist (TrimRightSpace (TrimLeftSpace s)) (TrimLeftSpace s)"
    by (rule prefix_imp_sublist [OF TrimRightSpace_prefix])
  moreover have "sublist (TrimLeftSpace s) s"
    by (rule suffix_imp_sublist [OF TrimLeftSpace_suffix])
  ultimately show ?thesis unfolding TrimSpace_def by (rule sublist_order.order.trans)
qed

lemma sublist_skip_line:
  "c \<notin> set m \<Longrightarrow> \<not> sublist m xs \<Longrightarrow> sublist m (xs @ c # ys) = sublist m ys"
  by (simp add: sublist_split_char)

lemma sublist_last_line:
  "c \<notin> set m \<Longrightarrow> \<not> sublist m ys \<Longrightarrow> sublist m (xs @ c # ys) = sublist m xs"
  by (simp add: sublist_split_char)

lemma post_end_marker_in_pre_section:
  "sublist ''# End Devbox Post-init Hook''
     (''# Begin Devbox Pre-init Hook'' @ [CHR 0x0A, CHR 0x0A] @ h
      @ [CHR 0x0A, CHR 0x0A] @ ''# End Devbox Pre-init Hook'' @ [CHR 0x0A, CHR 0x0A]
      @ ''export X=1'' @ [CHR 0x0A])
   = sublist ''# End Devbox Post-init Hook'' h"
proof -
  let ?m = "''# End Devbox Post-init Hook''"
  let ?tail = "[CHR 0x0A] @ ''# End Devbox Pre-init Hook'' @ [CHR 0x0A, CHR 0x0A]
      @ ''export X=1'' @ [CHR 0x0A]"
  have nl: "CHR 0x0A \<notin> set ?m" by simp
  have a: "\<not> sublist ?m ''# Begin Devbox Pre-init Hook''" by code_simp
  have e: "\<not> sublist ?m []" by simp
  have t: "\<not> sublist ?m ?tail" by code_simp
  have "''# Begin Devbox Pre-init Hook'' @ [CHR 0x0A, CHR 0x0A] @ h
      @ [CHR 0x0A, CHR 0x0A] @ ''# End Devbox Pre-init Hook'' @ [CHR 0x0A, CHR 0x0A]
      @ ''export X=1'' @ [CHR 0x0A]
    = ''# Begin Devbox Pre-init Hook'' @ CHR 0x0A # ([] @ CHR 0x0A # (h @ CHR 0x0A # ?tail))"
    by simp
  then have "sublist ?m (''# Begin Devbox Pre-init Hook'' @ [CHR 0x0A, CHR 0x0A] @ h
      @ [CHR 0x0A, CHR 0x0A] @ ''# End Devbox Pre-init Hook'' @ [CHR 0x0A, CHR 0x0A]
      @ ''export X=1'' @ [CHR 0x0A])
    = sublist ?m (''# Begin Devbox Pre-init Hook'' @ CHR 0x0A
        # ([] @ CHR 0x0A # (h @ CHR 0x0A # ?tail)))"
    by (rule arg_cong)
  also have "\<dots> = sublist ?m ([] @ CHR 0x0A # (h @ CHR 0x0A # ?tail))"
    by (rule sublist_skip_line [OF nl a])
  also have "\<dots> = sublist ?m (h @ CHR 0x0A # ?tail)"
    by (rule sublist_skip_line [OF nl e])
  also have "\<dots> = sublist ?m h"
    by (rule sublist_last_line [OF nl t])
  finally show ?thesis .
qed

section \<open>Facts about the exclusion filter\<close>

lemma lookupBool_buildExcluded:
  "lookupBool (buildExcluded m elems) k = (lookupBool m k \<or> k \<in> set elems)"
  by (induction elems arbitrary: m) (auto simp: lookupBool_def)

lemma filterLoop_filter:
  "filterLoop m acc s = acc @ filter (\<lambda>x. \<not> lookupBool m x) s"
  by (induction s arbitrary: acc) auto

lemma lookupBool_empty: "lookupBool Map.empty k = False"
  by (simp add: lookupBool_def)

lemma exclude_filter: "exclude s elems = filter (\<lambda>x. x \<notin> set elems) s"
  by (simp add: exclude_def filterLoop_filter lookupBool_buildExcluded lookupBool_empty)

lemma length_filter_split:
  "length (filter (\<lambda>x. \<not> P x) s) = length s - length (filter P s)"
  by (induction s) (auto simp: Suc_diff_le)

section \<open>Facts about package shell\<close>

lemma getenv_setenv: "getenv (setenv env k v) k' = (if k' = k then v else getenv env k')"
  by (simp add: setenv_def)

lemma userHomeDir_setenv: "userHomeDir (setenv env k v) = userHomeDir env"
  by (simp add: setenv_def)


lemma name_classify_indep: "name (classify env sh b) = name (classify env' sh' b)"
  by (simp add: classify_def Let_def)

lemma initFile_classify_indep:
  assumes "initFile sh = initFile sh'" "userHomeDir env = userHomeDir env'"
    "getenv env ''ENV'' = getenv env' ''ENV''"
  shows "initFile (classify env sh b) = initFile (classify env' sh' b)"
  using assms by (simp add: classify_def Let_def rcfilePath_def)

lemma initFile_classify_unknown:
  "name (classify env sh b) = shUnknown \<Longrightarrow> initFile (classify env sh b) = initFile sh"
  by (simp add: classify_def Let_def split: if_splits)


lemma Detect_nonempty:
  assumes "getenv env ''SHELL'' \<noteq> []"
  shows "Detect env = Inr (classify env
            \<lparr>name = shUnknown, path = Clean (getenv env ''SHELL''), initFile = [],
             devboxInitFile = [], PreInitHook = [], PostInitHook = []\<rparr>
            (if hd (Base (getenv env ''SHELL'')) = CHR ''-''
             then tl (Base (getenv env ''SHELL'')) else Base (getenv env ''SHELL'')))"
proof (cases "Base (getenv env ''SHELL'')")
  case Nil
  then show ?thesis using Base_nonempty by blast
next
  case (Cons b0 bs)
  with assms show ?thesis by (simp add: Detect_def Let_def)
qed

lemma Detect_unknown_initFile:
  assumes "Detect env = Inr s" "name s = shUnknown"
  shows "initFile s = []"
proof -
  from assms(1) have ne: "getenv env ''SHELL'' \<noteq> []"
    by (auto simp: Detect_def)
  from Detect_nonempty [OF ne] assms show ?thesis
    by (auto simp: initFile_classify_unknown)
qed

lemma buildInitFile_read_error:
  assumes "TrimSpace (PreInitHook s) \<noteq> [] \<or> TrimSpace (PostInitHook s) \<noteq> []"
    and "readFile env (initFile s) = Inl err"
  shows "buildInitFile env s = (Inl err, [ReadFile (initFile s)])"
  using assms by (auto simp add: buildInitFile_def Let_def)

lemma writeHooks_build_error:
  "buildInitFile env s = (Inl err, calls) \<Longrightarrow> writeHooks env s = (Some err, s, calls)"
  by (simp add: writeHooks_def)

lemma ExecCommand_hooks_error:
  "writeHooks env s = (Some err, s1, calls) \<Longrightarrow>
     ExecCommand env s = (''exec '' @ path s1, s1, calls)"
  by (simp add: ExecCommand_def plainExec_def)

lemma writeHooks_success:
  "writeHooks env s = (None, s1, calls) \<Longrightarrow>
     \<exists>tmp. mkdirTemp env [] ''devbox'' = Inr tmp
        \<and> s1 = s\<lparr>devboxInitFile := Join [tmp, Base (initFile s)]\<rparr>"
  by (auto simp: writeHooks_def Let_def split: prod.splits sum.splits option.splits)

text \<open>
  With no hook, \<^verbatim>\<open>writeHooks\<close> still creates the directory and writes the nil
  contents, a file of zero bytes.
\<close>

lemma writeHooks_no_hooks:
  assumes "TrimSpace (PreInitHook s) = []" "TrimSpace (PostInitHook s) = []"
    and "mkdirTemp env [] ''devbox'' = Inr tmp"
    and "writeFile env (Join [tmp, Base (initFile s)]) [] 384 = None"
  shows "writeHooks env s
     = (None, s\<lparr>devboxInitFile := Join [tmp, Base (initFile s)]\<rparr>,
        [MkdirTemp [] ''devbox'', WriteFile (Join [tmp, Base (initFile s)]) [] 384])"
  using assms by (simp add: writeHooks_def buildInitFile_def bytesOf_def Let_def)

text \<open>
  After a call of \<^verbatim>\<open>writeHooks\<close> that returns nil, the field \<^verbatim>\<open>devboxInitFile\<close> is
  never empty: the second test of the guard in \<^verbatim>\<open>ExecCommand\<close> cannot fire.
\<close>

lemma writeHooks_success_nonempty:
  "writeHooks env s = (None, s1, calls) \<Longrightarrow> devboxInitFile s1 \<noteq> []"
  by (auto dest!: writeHooks_success simp: Join_two_nonempty Base_nonempty)

lemma name_writeHooks:
  "writeHooks env s = (err, s1, calls) \<Longrightarrow> name s1 = name s \<and> path s1 = path s"
  by (auto simp: writeHooks_def Let_def split: prod.splits sum.splits option.splits)

lemma ExecCommand_unknown:
  assumes "name s = shUnknown"
  shows "fst (ExecCommand env s) = ''exec '' @ path s"
proof -
  obtain err s1 calls where w: "writeHooks env s = (err, s1, calls)"
    by (cases "writeHooks env s") auto
  from name_writeHooks [OF w] assms show ?thesis
    by (simp add: ExecCommand_def w plainExec_def)
qed

section \<open>Properties of the specification\<close>

subsection \<open>ExecCommand with empty hooks\<close>

text \<open>
  Claim C1 says that with both hooks empty \<^verbatim>\<open>ExecCommand\<close> returns the plain
  \<open>exec /bin/zsh\<close> and that no file is materialized. The code behaves otherwise:
  \<^verbatim>\<open>writeHooks\<close> does not look at the "no content" result of \<^verbatim>\<open>buildInitFile\<close>, it
  creates the temporary directory and writes an empty file, and \<^verbatim>\<open>ExecCommand\<close> then
  takes the branch of the family. On the example host, for the signal \<open>/bin/zsh\<close>
  and two empty hooks, the command sets \<^verbatim>\<open>ORIGINAL_PATH\<close> and \<^verbatim>\<open>ZDOTDIR\<close>, and the
  calls made are the creation of the directory and the write of zero bytes to
  \<open>/tmp/devbox123/.zshrc\<close>.
\<close>

theorem ExecCommand_empty_hooks_zsh:
  "Detect (setenv exampleOS ''SHELL'' ''/bin/zsh'') = Inr exampleZsh
   \<and> buildInitFile (setenv exampleOS ''SHELL'' ''/bin/zsh'') (withHooks exampleZsh [] [])
       = (Inr None, [])
   \<and> fst (ExecCommand (setenv exampleOS ''SHELL'' ''/bin/zsh'') (withHooks exampleZsh [] []))
       = ''exec /usr/bin/env ORIGINAL_PATH='' @ [CHR 0x22] @ ''/usr/bin:/bin'' @ [CHR 0x22]
         @ '' ZDOTDIR='' @ [CHR 0x22] @ ''/tmp/devbox123'' @ [CHR 0x22] @ '' /bin/zsh''
   \<and> fst (ExecCommand (setenv exampleOS ''SHELL'' ''/bin/zsh'') (withHooks exampleZsh [] []))
       \<noteq> ''exec /bin/zsh''
   \<and> snd (snd (ExecCommand (setenv exampleOS ''SHELL'' ''/bin/zsh'')
                  (withHooks exampleZsh [] [])))
       = [MkdirTemp [] ''devbox'', WriteFile ''/tmp/devbox123/.zshrc'' [] 384]"
  by code_simp

text \<open>
  In particular the command is not the plain one, and a file of zero bytes is
  written in place of the user's \<open>.zshrc\<close>.
\<close>

theorem ExecCommand_empty_hooks_zsh_witness:
  "fst (ExecCommand (setenv exampleOS ''SHELL'' ''/bin/zsh'') (withHooks exampleZsh [] []))
       \<noteq> ''exec /bin/zsh''
   \<and> WriteFile ''/tmp/devbox123/.zshrc'' [] 384
       \<in> set (snd (snd (ExecCommand (setenv exampleOS ''SHELL'' ''/bin/zsh'')
                           (withHooks exampleZsh [] []))))"
  using ExecCommand_empty_hooks_zsh by simp

subsection \<open>A native init file that cannot be read\<close>

text \<open>
  Claim C2. If at least one trimmed hook is non-empty and reading the native init
  file fails, \<^verbatim>\<open>buildInitFile\<close> returns that very error, \<^verbatim>\<open>ExecCommand\<close> returns the
  plain \<open>exec\<close> followed by the path of the shell, and the read is the only call made
  to the operating system (no directory is created, nothing is written).
\<close>

theorem read_failure_plain_exec:
  assumes "TrimSpace (PreInitHook s) \<noteq> [] \<or> TrimSpace (PostInitHook s) \<noteq> []"
    and "readFile env (initFile s) = Inl err"
  shows "fst (buildInitFile env s) = Inl err
     \<and> fst (ExecCommand env s) = ''exec '' @ path s
     \<and> snd (snd (ExecCommand env s)) = [ReadFile (initFile s)]"
  using ExecCommand_hooks_error [OF writeHooks_build_error [OF buildInitFile_read_error [OF assms]]]
    buildInitFile_read_error [OF assms]
  by simp

text \<open>
  The scenario of the specification: signal \<open>/bin/bash\<close>, pre-hook \<open>echo hi\<close>, empty
  post-hook, \<open>.bashrc\<close> missing.
\<close>

theorem read_failure_plain_exec_witness:
  "Detect (setenv exampleOS ''SHELL'' ''/bin/bash'') = Inr exampleBash
   \<and> TrimSpace (PreInitHook (withHooks exampleBash ''echo hi'' [])) = ''echo hi''
   \<and> TrimSpace (PostInitHook (withHooks exampleBash ''echo hi'' [])) = []
   \<and> readFile (setenv exampleOS ''SHELL'' ''/bin/bash'')
        (initFile (withHooks exampleBash ''echo hi'' []))
       = Inl (Err ''no such file or directory'')
   \<and> fst (buildInitFile (setenv exampleOS ''SHELL'' ''/bin/bash'')
             (withHooks exampleBash ''echo hi'' []))
       = Inl (Err ''no such file or directory'')
   \<and> fst (ExecCommand (setenv exampleOS ''SHELL'' ''/bin/bash'')
             (withHooks exampleBash ''echo hi'' []))
       = ''exec /bin/bash''"
proof -
  let ?env = "setenv exampleOS ''SHELL'' ''/bin/bash''"
  let ?s = "withHooks exampleBash ''echo hi'' []"
  have d: "Detect ?env = Inr exampleBash" by code_simp
  have h1: "TrimSpace (PreInitHook ?s) \<noteq> [] \<or> TrimSpace (PostInitHook ?s) \<noteq> []"
    by code_simp
  have h2: "readFile ?env (initFile ?s) = Inl (Err ''no such file or directory'')"
    by code_simp
  have p: "path ?s = ''/bin/bash''" by code_simp
  have t: "TrimSpace (PreInitHook ?s) = ''echo hi''" "TrimSpace (PostInitHook ?s) = []"
    by code_simp+
  from read_failure_plain_exec [OF h1 h2] d t h2 p show ?thesis by simp
qed

subsection \<open>Composition with a pre-hook only\<close>

text \<open>
  Claim C3 says that, for every pre-hook that is non-empty after trimming, with an
  empty post-hook and the native content \<open>export X=1\<close>, the output contains no
  post-hook marker. The pre-hook is pasted into the output as it is, so this fails
  for a pre-hook that holds the text of a marker: with the pre-hook
  \<open># End Devbox Post-init Hook\<close> the output contains that line.
\<close>

theorem buildInitFile_post_marker_counterexample:
  "TrimSpace (PreInitHook (withHooks exampleBash ''# End Devbox Post-init Hook'' []))
       = ''# End Devbox Post-init Hook''
   \<and> TrimSpace (PostInitHook (withHooks exampleBash ''# End Devbox Post-init Hook'' [])) = []
   \<and> readFile exampleOSrc (initFile (withHooks exampleBash ''# End Devbox Post-init Hook'' []))
       = Inr ''export X=1''
   \<and> fst (buildInitFile exampleOSrc (withHooks exampleBash ''# End Devbox Post-init Hook'' []))
       = Inr (Some (''# Begin Devbox Pre-init Hook'' @ [CHR 0x0A, CHR 0x0A]
                @ ''# End Devbox Post-init Hook''
                @ [CHR 0x0A, CHR 0x0A] @ ''# End Devbox Pre-init Hook'' @ [CHR 0x0A, CHR 0x0A]
                @ ''export X=1'' @ [CHR 0x0A]))
   \<and> sublist ''# End Devbox Post-init Hook''
        (''# Begin Devbox Pre-init Hook'' @ [CHR 0x0A, CHR 0x0A]
                @ ''# End Devbox Post-init Hook''
                @ [CHR 0x0A, CHR 0x0A] @ ''# End Devbox Pre-init Hook'' @ [CHR 0x0A, CHR 0x0A]
                @ ''export X=1'' @ [CHR 0x0A])"
  by code_simp

text \<open>
  Claim C3, amended. If the trimmed pre-hook is non-empty, the trimmed post-hook is
  empty and the native init file holds \<open>export X=1\<close>, then \<^verbatim>\<open>buildInitFile\<close> returns
  exactly: the line \<open># Begin Devbox Pre-init Hook\<close>, an empty line, the trimmed
  pre-hook (a contiguous part of the pre-hook), an empty line, the line
  \<open># End Devbox Pre-init Hook\<close>, an empty line, the native content \<open>export X=1\<close>,
  and one line feed. So the two pre-hook markers surround the trimmed pre-hook and
  come before the native content, and the output ends with exactly one line feed
  after the last byte of the trimmed buffer. No post-hook section is emitted: the
  marker \<open># End Devbox Post-init Hook\<close> occurs in the output exactly when it occurs
  in the trimmed pre-hook itself.
\<close>

theorem buildInitFile_pre_hook_only:
  assumes pre: "TrimSpace (PreInitHook s) \<noteq> []"
    and post: "TrimSpace (PostInitHook s) = []"
    and rd: "readFile env (initFile s) = Inr ''export X=1''"
  shows "\<exists>out. fst (buildInitFile env s) = Inr (Some out)
     \<and> out = ''# Begin Devbox Pre-init Hook'' @ [CHR 0x0A, CHR 0x0A]
                @ TrimSpace (PreInitHook s)
                @ [CHR 0x0A, CHR 0x0A] @ ''# End Devbox Pre-init Hook'' @ [CHR 0x0A, CHR 0x0A]
                @ ''export X=1'' @ [CHR 0x0A]
     \<and> sublist (TrimSpace (PreInitHook s)) (PreInitHook s)
     \<and> sublist ''# End Devbox Post-init Hook'' out
         = sublist ''# End Devbox Post-init Hook'' (TrimSpace (PreInitHook s))"
proof -
  let ?out = "''# Begin Devbox Pre-init Hook'' @ [CHR 0x0A, CHR 0x0A]
                @ TrimSpace (PreInitHook s)
                @ [CHR 0x0A, CHR 0x0A] @ ''# End Devbox Pre-init Hook'' @ [CHR 0x0A, CHR 0x0A]
                @ ''export X=1'' @ [CHR 0x0A]"
  from pre post rd have b: "fst (buildInitFile env s) = Inr (Some ?out)"
    by (simp add: buildInitFile_def Let_def TrimSpace_export TrimSpace_pre_section)
  have t: "sublist (TrimSpace (PreInitHook s)) (PreInitHook s)"
    by (rule TrimSpace_sublist)
  have m: "sublist ''# End Devbox Post-init Hook'' ?out
         = sublist ''# End Devbox Post-init Hook'' (TrimSpace (PreInitHook s))"
    by (rule post_end_marker_in_pre_section)
  from b t m show ?thesis by blast
qed

text \<open>
  The pre-hook \<open>echo hi\<close> between a space and a line feed: the output holds no
  post-hook end marker.
\<close>

theorem buildInitFile_pre_hook_only_witness:
  "TrimSpace (PreInitHook (withHooks exampleBash ('' echo hi'' @ [CHR 0x0A]) '' '')) = ''echo hi''
   \<and> TrimSpace (PostInitHook (withHooks exampleBash ('' echo hi'' @ [CHR 0x0A]) '' '')) = []
   \<and> readFile exampleOSrc (initFile (withHooks exampleBash ('' echo hi'' @ [CHR 0x0A]) '' ''))
       = Inr ''export X=1''
   \<and> fst (buildInitFile exampleOSrc (withHooks exampleBash ('' echo hi'' @ [CHR 0x0A]) '' ''))
       = Inr (Some (''# Begin Devbox Pre-init Hook'' @ [CHR 0x0A, CHR 0x0A]
                @ ''echo hi''
                @ [CHR 0x0A, CHR 0x0A] @ ''# End Devbox Pre-init Hook'' @ [CHR 0x0A, CHR 0x0A]
                @ ''export X=1'' @ [CHR 0x0A]))
   \<and> \<not> sublist ''# End Devbox Post-init Hook''
         (''# Begin Devbox Pre-init Hook'' @ [CHR 0x0A, CHR 0x0A]
                @ ''echo hi''
                @ [CHR 0x0A, CHR 0x0A] @ ''# End Devbox Pre-init Hook'' @ [CHR 0x0A, CHR 0x0A]
                @ ''export X=1'' @ [CHR 0x0A])"
proof -
  let ?s = "withHooks exampleBash ('' echo hi'' @ [CHR 0x0A]) '' ''"
  have t: "TrimSpace (PreInitHook ?s) = ''echo hi''" by code_simp
  have h1: "TrimSpace (PreInitHook ?s) \<noteq> []" by code_simp
  have h2: "TrimSpace (PostInitHook ?s) = []" by code_simp
  have h3: "readFile exampleOSrc (initFile ?s) = Inr ''export X=1''" by code_simp
  have n: "\<not> sublist ''# End Devbox Post-init Hook'' ''echo hi''" by code_simp
  from buildInitFile_pre_hook_only [OF h1 h2 h3] obtain out where
    o1: "fst (buildInitFile exampleOSrc ?s) = Inr (Some out)"
    and o2: "out = ''# Begin Devbox Pre-init Hook'' @ [CHR 0x0A, CHR 0x0A]
                @ TrimSpace (PreInitHook ?s)
                @ [CHR 0x0A, CHR 0x0A] @ ''# End Devbox Pre-init Hook'' @ [CHR 0x0A, CHR 0x0A]
                @ ''export X=1'' @ [CHR 0x0A]"
    and o3: "sublist ''# End Devbox Post-init Hook'' out
         = sublist ''# End Devbox Post-init Hook'' (TrimSpace (PreInitHook ?s))"
    by blast
  from o2 have o2': "out = ''# Begin Devbox Pre-init Hook'' @ [CHR 0x0A, CHR 0x0A]
                @ ''echo hi''
                @ [CHR 0x0A, CHR 0x0A] @ ''# End Devbox Pre-init Hook'' @ [CHR 0x0A, CHR 0x0A]
                @ ''export X=1'' @ [CHR 0x0A]"
    by (simp only: t)
  from o3 [unfolded t] n have o3': "\<not> sublist ''# End Devbox Post-init Hook'' out"
    by blast
  from o1 o3' t h2 h3 show ?thesis unfolding o2' by blast
qed

subsection \<open>The command for each family\<close>

text \<open>
  Claim C4. When \<^verbatim>\<open>writeHooks\<close> succeeds, the materialized path is not empty: it is
  the join of the temporary directory and the base name of the native init file.
  \<^verbatim>\<open>ExecCommand\<close> then returns, for bash, the shell path with \<^verbatim>\<open>--rcfile\<close> and the
  materialized path; for zsh, \<^verbatim>\<open>ZDOTDIR\<close> set to the directory of the materialized
  path; for ksh and the posix shells, \<^verbatim>\<open>ENV\<close> set to the materialized path; each
  time after \<^verbatim>\<open>ORIGINAL_PATH\<close> set to the value of \<^verbatim>\<open>PATH\<close> in the environment of the
  call. The unknown family gets the plain \<open>exec\<close>.
\<close>

theorem ExecCommand_family_dispatch:
  assumes ok: "writeHooks env s = (None, s1, calls)"
  shows "devboxInitFile s1 \<noteq> []
     \<and> (\<exists>tmp. mkdirTemp env [] ''devbox'' = Inr tmp
            \<and> devboxInitFile s1 = Join [tmp, Base (initFile s)])
     \<and> fst (ExecCommand env s) =
         (case name s of
            shBash \<Rightarrow>
              ''exec /usr/bin/env ORIGINAL_PATH='' @ [CHR 0x22] @ getenv env ''PATH'' @ [CHR 0x22]
              @ '' '' @ path s @ '' --rcfile '' @ [CHR 0x22] @ devboxInitFile s1 @ [CHR 0x22]
          | shZsh \<Rightarrow>
              ''exec /usr/bin/env ORIGINAL_PATH='' @ [CHR 0x22] @ getenv env ''PATH'' @ [CHR 0x22]
              @ '' ZDOTDIR='' @ [CHR 0x22] @ Dir (devboxInitFile s1) @ [CHR 0x22] @ '' '' @ path s
          | shKsh \<Rightarrow>
              ''exec /usr/bin/env ORIGINAL_PATH='' @ [CHR 0x22] @ getenv env ''PATH'' @ [CHR 0x22]
              @ '' ENV='' @ [CHR 0x22] @ devboxInitFile s1 @ [CHR 0x22] @ '' '' @ path s @ '' ''
          | shPosix \<Rightarrow>
              ''exec /usr/bin/env ORIGINAL_PATH='' @ [CHR 0x22] @ getenv env ''PATH'' @ [CHR 0x22]
              @ '' ENV='' @ [CHR 0x22] @ devboxInitFile s1 @ [CHR 0x22] @ '' '' @ path s @ '' ''
          | shUnknown \<Rightarrow> ''exec '' @ path s)"
proof -
  from writeHooks_success [OF ok] obtain tmp where
    tmp: "mkdirTemp env [] ''devbox'' = Inr tmp"
    and s1: "s1 = s\<lparr>devboxInitFile := Join [tmp, Base (initFile s)]\<rparr>" by blast
  have ne: "devboxInitFile s1 \<noteq> []"
    by (rule writeHooks_success_nonempty [OF ok])
  have cmd: "fst (ExecCommand env s) =
         (case name s of
            shBash \<Rightarrow>
              ''exec /usr/bin/env ORIGINAL_PATH='' @ [CHR 0x22] @ getenv env ''PATH'' @ [CHR 0x22]
              @ '' '' @ path s @ '' --rcfile '' @ [CHR 0x22] @ devboxInitFile s1 @ [CHR 0x22]
          | shZsh \<Rightarrow>
              ''exec /usr/bin/env ORIGINAL_PATH='' @ [CHR 0x22] @ getenv env ''PATH'' @ [CHR 0x22]
              @ '' ZDOTDIR='' @ [CHR 0x22] @ Dir (devboxInitFile s1) @ [CHR 0x22] @ '' '' @ path s
          | shKsh \<Rightarrow>
              ''exec /usr/bin/env ORIGINAL_PATH='' @ [CHR 0x22] @ getenv env ''PATH'' @ [CHR 0x22]
              @ '' ENV='' @ [CHR 0x22] @ devboxInitFile s1 @ [CHR 0x22] @ '' '' @ path s @ '' ''
          | shPosix \<Rightarrow>
              ''exec /usr/bin/env ORIGINAL_PATH='' @ [CHR 0x22] @ getenv env ''PATH'' @ [CHR 0x22]
              @ '' ENV='' @ [CHR 0x22] @ devboxInitFile s1 @ [CHR 0x22] @ '' '' @ path s @ '' ''
          | shUnknown \<Rightarrow> ''exec '' @ path s)"
    using ne by (simp add: ExecCommand_def ok plainExec_def s1 split: name.splits)
  from ne tmp s1 cmd show ?thesis by auto
qed

text \<open>
  On the example host with a readable init file: bash with the pre-hook \<open>echo hi\<close>,
  and zsh with the post-hook \<open>echo bye\<close>.
\<close>

theorem ExecCommand_family_dispatch_witness:
  "writeHooks exampleOSrc (withHooks exampleBash ''echo hi'' [])
     = (None,
        (withHooks exampleBash ''echo hi'' [])\<lparr>devboxInitFile := ''/tmp/devbox123/.bashrc''\<rparr>,
        [ReadFile ''/home/u/.bashrc'', MkdirTemp [] ''devbox'',
         WriteFile ''/tmp/devbox123/.bashrc''
           (''# Begin Devbox Pre-init Hook'' @ [CHR 0x0A, CHR 0x0A] @ ''echo hi''
            @ [CHR 0x0A, CHR 0x0A] @ ''# End Devbox Pre-init Hook'' @ [CHR 0x0A, CHR 0x0A]
            @ ''export X=1'' @ [CHR 0x0A]) 384])
   \<and> fst (ExecCommand exampleOSrc (withHooks exampleBash ''echo hi'' []))
       = ''exec /usr/bin/env ORIGINAL_PATH='' @ [CHR 0x22] @ ''/usr/bin:/bin'' @ [CHR 0x22]
         @ '' /bin/bash --rcfile '' @ [CHR 0x22] @ ''/tmp/devbox123/.bashrc'' @ [CHR 0x22]
   \<and> fst (writeHooks exampleOSrc (withHooks exampleZsh [] ''echo bye'')) = None
   \<and> fst (ExecCommand exampleOSrc (withHooks exampleZsh [] ''echo bye''))
       = ''exec /usr/bin/env ORIGINAL_PATH='' @ [CHR 0x22] @ ''/usr/bin:/bin'' @ [CHR 0x22]
         @ '' ZDOTDIR='' @ [CHR 0x22] @ ''/tmp/devbox123'' @ [CHR 0x22] @ '' /bin/zsh''"
proof -
  let ?z = "withHooks exampleZsh [] ''echo bye''"
  obtain z1 zcalls where hz: "writeHooks exampleOSrc ?z = (None, z1, zcalls)"
    and z1: "z1 = ?z\<lparr>devboxInitFile := ''/tmp/devbox123/.zshrc''\<rparr>"
  proof -
    have "fst (writeHooks exampleOSrc ?z) = None"
      "fst (snd (writeHooks exampleOSrc ?z)) = ?z\<lparr>devboxInitFile := ''/tmp/devbox123/.zshrc''\<rparr>"
      by code_simp+
    then show ?thesis using that by (cases "writeHooks exampleOSrc ?z") auto
  qed
  have vz: "name ?z = shZsh" "path ?z = ''/bin/zsh''"
    "Dir (devboxInitFile (?z\<lparr>devboxInitFile := ''/tmp/devbox123/.zshrc''\<rparr>))
       = ''/tmp/devbox123''"
    by code_simp+
  from ExecCommand_family_dispatch [OF hz] hz
  have rz: "fst (writeHooks exampleOSrc ?z) = None
     \<and> fst (ExecCommand exampleOSrc ?z)
       = ''exec /usr/bin/env ORIGINAL_PATH='' @ [CHR 0x22] @ ''/usr/bin:/bin'' @ [CHR 0x22]
         @ '' ZDOTDIR='' @ [CHR 0x22] @ ''/tmp/devbox123'' @ [CHR 0x22] @ '' /bin/zsh''"
    unfolding z1 by (simp only: vz name.case) (simp add: exampleOSrc_def exampleOS_def)
  let ?s = "withHooks exampleBash ''echo hi'' []"
  let ?s1 = "?s\<lparr>devboxInitFile := ''/tmp/devbox123/.bashrc''\<rparr>"
  let ?calls = "[ReadFile ''/home/u/.bashrc'', MkdirTemp [] ''devbox'',
         WriteFile ''/tmp/devbox123/.bashrc''
           (''# Begin Devbox Pre-init Hook'' @ [CHR 0x0A, CHR 0x0A] @ ''echo hi''
            @ [CHR 0x0A, CHR 0x0A] @ ''# End Devbox Pre-init Hook'' @ [CHR 0x0A, CHR 0x0A]
            @ ''export X=1'' @ [CHR 0x0A]) 384]"
  have h: "writeHooks exampleOSrc ?s = (None, ?s1, ?calls)" by code_simp
  have v: "name ?s = shBash" "path ?s = ''/bin/bash''"
    "devboxInitFile ?s1 = ''/tmp/devbox123/.bashrc''"
    "getenv exampleOSrc ''PATH'' = ''/usr/bin:/bin''"
    by code_simp+
  from ExecCommand_family_dispatch [OF h] h
  have rb: "writeHooks exampleOSrc ?s = (None, ?s1, ?calls)
     \<and> fst (ExecCommand exampleOSrc ?s)
       = ''exec /usr/bin/env ORIGINAL_PATH='' @ [CHR 0x22] @ ''/usr/bin:/bin'' @ [CHR 0x22]
         @ '' /bin/bash --rcfile '' @ [CHR 0x22] @ ''/tmp/devbox123/.bashrc'' @ [CHR 0x22]"
    by (simp only: v name.case) simp
  from rb rz show ?thesis by simp
qed

subsection \<open>Composition with no hook\<close>

text \<open>
  Claim C5. If both hooks are empty after trimming, \<^verbatim>\<open>buildInitFile\<close> returns the
  "no content" result (nil contents, nil error) and makes no call to the operating
  system, so it does not read the native init file; this holds for every
  environment, whatever a read of the native init file would have returned.
\<close>

theorem buildInitFile_no_hooks:
  "TrimSpace (PreInitHook s) = [] \<Longrightarrow> TrimSpace (PostInitHook s) = [] \<Longrightarrow>
     buildInitFile env s = (Inr None, [])"
  by (simp add: buildInitFile_def)

text \<open>
  A pre-hook of a space, a tab and a line feed, and a post-hook of a no-break
  space (U+00A0), on a host whose init file is readable.
\<close>

theorem buildInitFile_no_hooks_witness:
  "TrimSpace (PreInitHook (withHooks exampleZsh [CHR 0x20, CHR 0x09, CHR 0x0A]
                             [CHR 0xC2, CHR 0xA0])) = []
   \<and> TrimSpace (PostInitHook (withHooks exampleZsh [CHR 0x20, CHR 0x09, CHR 0x0A]
                                [CHR 0xC2, CHR 0xA0])) = []
   \<and> readFile exampleOSrc (initFile exampleZsh) = Inr ''export X=1''
   \<and> buildInitFile exampleOSrc
        (withHooks exampleZsh [CHR 0x20, CHR 0x09, CHR 0x0A] [CHR 0xC2, CHR 0xA0])
       = (Inr None, [])"
proof -
  let ?s = "withHooks exampleZsh [CHR 0x20, CHR 0x09, CHR 0x0A] [CHR 0xC2, CHR 0xA0]"
  have h1: "TrimSpace (PreInitHook ?s) = []" by code_simp
  have h2: "TrimSpace (PostInitHook ?s) = []" by code_simp
  have r: "readFile exampleOSrc (initFile exampleZsh) = Inr ''export X=1''" by code_simp
  from buildInitFile_no_hooks [OF h1 h2, of exampleOSrc] h1 h2 r show ?thesis by blast
qed

subsection \<open>The login-shell hyphen\<close>

text \<open>
  Claim C6. Let the base name of the signal \<open>p\<close> be a hyphen followed by \<open>b\<close>. Then
  \<^verbatim>\<open>Detect\<close> succeeds and the Shell is the one the switch gives for \<open>b\<close>: exactly
  that one character is removed, and the hyphen takes no part in the comparison.
  Hence, for every signal \<open>q\<close> whose base name is \<open>b\<close> itself (and so begins with
  no hyphen), detection of \<open>p\<close> and of \<open>q\<close> give the same family and the same native
  init file. With \<open>p\<close> = \<open>-bash\<close> and \<open>q\<close> = \<open>bash\<close> this is the case of the
  specification.
\<close>

theorem Detect_login_hyphen:
  assumes bp: "Base p = CHR ''-'' # b"
  shows "\<exists>s. Detect (setenv env ''SHELL'' p) = Inr s
          \<and> s = classify (setenv env ''SHELL'' p)
                  \<lparr>name = shUnknown, path = Clean p, initFile = [],
                   devboxInitFile = [], PreInitHook = [], PostInitHook = []\<rparr> b
          \<and> (\<forall>q. q \<noteq> [] \<and> Base q = b \<and> \<not> prefix ''-'' b \<longrightarrow>
                (\<exists>t. Detect (setenv env ''SHELL'' q) = Inr t
                     \<and> name s = name t \<and> initFile s = initFile t))"
proof -
  let ?ep = "setenv env ''SHELL'' p"
  let ?sh = "\<lambda>x. \<lparr>name = shUnknown, path = Clean x, initFile = [],
             devboxInitFile = [], PreInitHook = [], PostInitHook = []\<rparr>"
  from bp have p: "p \<noteq> []" by (auto simp: Base_Nil)
  from p bp have dp: "Detect ?ep = Inr (classify ?ep (?sh p) b)"
    by (simp add: Detect_nonempty getenv_setenv)
  have rel: "\<exists>t. Detect (setenv env ''SHELL'' q) = Inr t
               \<and> name (classify ?ep (?sh p) b) = name t
               \<and> initFile (classify ?ep (?sh p) b) = initFile t"
    if q: "q \<noteq> []" and bq: "Base q = b" and nh: "\<not> prefix ''-'' b" for q
  proof -
    let ?eq = "setenv env ''SHELL'' q"
    from nh bq Base_nonempty [of q] have hq: "hd (Base q) \<noteq> CHR ''-''"
      by (cases "Base q") auto
    from q hq bq have dq: "Detect ?eq = Inr (classify ?eq (?sh q) b)"
      by (simp add: Detect_nonempty getenv_setenv)
    have n: "name (classify ?ep (?sh p) b) = name (classify ?eq (?sh q) b)"
      by (rule name_classify_indep)
    have i: "initFile (classify ?ep (?sh p) b) = initFile (classify ?eq (?sh q) b)"
      by (rule initFile_classify_indep) (simp_all add: getenv_setenv userHomeDir_setenv)
    from dq n i show ?thesis by simp
  qed
  from dp rel show ?thesis by blast
qed

text \<open>
  The signals \<open>-bash\<close> and \<open>bash\<close> on the example host: both are bash with the
  init file \<open>/home/u/.bashrc\<close>. Only one hyphen is removed: \<open>--bash\<close> is classified
  by \<open>-bash\<close> and is of the unknown family.
\<close>

theorem Detect_login_hyphen_witness:
  "Base ''-bash'' = CHR ''-'' # ''bash''
   \<and> Base ''bash'' = ''bash'' \<and> \<not> prefix ''-'' ''bash''
   \<and> Detect (setenv exampleOS ''SHELL'' ''-bash'') = Inr (exampleBash\<lparr>path := ''-bash''\<rparr>)
   \<and> Detect (setenv exampleOS ''SHELL'' ''bash'') = Inr (exampleBash\<lparr>path := ''bash''\<rparr>)
   \<and> name (exampleBash\<lparr>path := ''-bash''\<rparr>) = name (exampleBash\<lparr>path := ''bash''\<rparr>)
   \<and> initFile (exampleBash\<lparr>path := ''-bash''\<rparr>) = initFile (exampleBash\<lparr>path := ''bash''\<rparr>)
   \<and> name (exampleBash\<lparr>path := ''-bash''\<rparr>) = shBash
   \<and> initFile (exampleBash\<lparr>path := ''-bash''\<rparr>) = ''/home/u/.bashrc''
   \<and> Detect (setenv exampleOS ''SHELL'' ''--bash'') = Inr (exampleFish\<lparr>path := ''--bash''\<rparr>)"
proof -
  have two: "Detect (setenv exampleOS ''SHELL'' ''--bash'')
               = Inr (exampleFish\<lparr>path := ''--bash''\<rparr>)" by code_simp
  have h1: "Base ''-bash'' = CHR ''-'' # ''bash''" by code_simp
  have h2: "''bash'' \<noteq> [] \<and> Base ''bash'' = ''bash'' \<and> \<not> prefix ''-'' ''bash''"
    by code_simp
  have v: "name (exampleBash\<lparr>path := ''-bash''\<rparr>) = shBash"
    "initFile (exampleBash\<lparr>path := ''-bash''\<rparr>) = ''/home/u/.bashrc''"
    "classify (setenv exampleOS ''SHELL'' ''-bash'')
       \<lparr>name = shUnknown, path = Clean ''-bash'', initFile = [],
        devboxInitFile = [], PreInitHook = [], PostInitHook = []\<rparr> ''bash''
      = exampleBash\<lparr>path := ''-bash''\<rparr>"
    by code_simp+
  from Detect_login_hyphen [OF h1, of exampleOS] obtain s where
    s: "Detect (setenv exampleOS ''SHELL'' ''-bash'') = Inr s"
    and c: "s = classify (setenv exampleOS ''SHELL'' ''-bash'')
                  \<lparr>name = shUnknown, path = Clean ''-bash'', initFile = [],
                   devboxInitFile = [], PreInitHook = [], PostInitHook = []\<rparr> ''bash''"
    and r: "\<forall>q. q \<noteq> [] \<and> Base q = ''bash'' \<and> \<not> prefix ''-'' ''bash'' \<longrightarrow>
                (\<exists>t. Detect (setenv exampleOS ''SHELL'' q) = Inr t
                     \<and> name s = name t \<and> initFile s = initFile t)"
    by blast
  from c v(3) have se: "s = exampleBash\<lparr>path := ''-bash''\<rparr>" by simp
  from r h2 obtain t where
    t: "Detect (setenv exampleOS ''SHELL'' ''bash'') = Inr t"
    and e: "name s = name t" "initFile s = initFile t" by blast
  have d: "Detect (setenv exampleOS ''SHELL'' ''bash'')
             = Inr (exampleBash\<lparr>path := ''bash''\<rparr>)" by code_simp
  with t have te: "t = exampleBash\<lparr>path := ''bash''\<rparr>" by simp
  from h1 h2 s t e v(1,2) two show ?thesis unfolding se te by blast
qed

subsection \<open>The posix family\<close>

text \<open>
  Claim C7. If the base name of the signal, with one leading hyphen removed when
  there is one, is \<open>dash\<close>, \<open>ash\<close> or \<open>sh\<close>, then \<^verbatim>\<open>Detect\<close> returns a Shell of the
  posix family whose native init file is the value of \<^verbatim>\<open>ENV\<close>, or the bare name
  \<open>.shinit\<close> (joined with no directory) when \<^verbatim>\<open>ENV\<close> is unset or empty.
\<close>

theorem Detect_posix:
  assumes sh: "getenv env ''SHELL'' = p"
    and base: "Base p = b \<or> Base p = CHR ''-'' # b"
    and b: "b = ''dash'' \<or> b = ''ash'' \<or> b = ''sh''"
  shows "\<exists>s. Detect env = Inr s \<and> name s = shPosix
           \<and> initFile s = (if getenv env ''ENV'' = [] then ''.shinit'' else getenv env ''ENV'')"
proof -
  from base b have p: "p \<noteq> []" by (auto simp: Base_Nil)
  from base b have st: "(if hd (Base p) = CHR ''-'' then tl (Base p) else Base p) = b"
    by auto
  from p sh have "Detect env = Inr (classify env
            \<lparr>name = shUnknown, path = Clean p, initFile = [],
             devboxInitFile = [], PreInitHook = [], PostInitHook = []\<rparr>
            (if hd (Base p) = CHR ''-'' then tl (Base p) else Base p))"
    using Detect_nonempty [of env] by simp
  then have d: "Detect env = Inr (classify env
            \<lparr>name = shUnknown, path = Clean p, initFile = [],
             devboxInitFile = [], PreInitHook = [], PostInitHook = []\<rparr> b)"
    by (simp only: st)
  from b show ?thesis unfolding d by (auto simp: classify_def Let_def)
qed

text \<open>
  The signal \<open>/bin/dash\<close> with \<^verbatim>\<open>ENV\<close> unset, and the login shell \<open>-sh\<close> with \<^verbatim>\<open>ENV\<close>
  set to \<open>/etc/shrc\<close>.
\<close>

theorem Detect_posix_witness:
  "getenv (setenv exampleOS ''SHELL'' ''/bin/dash'') ''SHELL'' = ''/bin/dash''
   \<and> Base ''/bin/dash'' = ''dash''
   \<and> (\<exists>s. Detect (setenv exampleOS ''SHELL'' ''/bin/dash'') = Inr s
          \<and> name s = shPosix \<and> initFile s = ''.shinit'')
   \<and> getenv (setenv (setenv exampleOS ''ENV'' ''/etc/shrc'') ''SHELL'' ''-sh'') ''SHELL'' = ''-sh''
   \<and> Base ''-sh'' = CHR ''-'' # ''sh''
   \<and> (\<exists>s. Detect (setenv (setenv exampleOS ''ENV'' ''/etc/shrc'') ''SHELL'' ''-sh'') = Inr s
          \<and> name s = shPosix \<and> initFile s = ''/etc/shrc'')"
proof -
  let ?e1 = "setenv exampleOS ''SHELL'' ''/bin/dash''"
  let ?e2 = "setenv (setenv exampleOS ''ENV'' ''/etc/shrc'') ''SHELL'' ''-sh''"
  have a1: "getenv ?e1 ''SHELL'' = ''/bin/dash''" by code_simp
  have a2: "Base ''/bin/dash'' = ''dash''" by code_simp
  have a3: "getenv ?e1 ''ENV'' = []" by code_simp
  have b1: "getenv ?e2 ''SHELL'' = ''-sh''" by code_simp
  have b2: "Base ''-sh'' = CHR ''-'' # ''sh''" by code_simp
  have b3: "getenv ?e2 ''ENV'' = ''/etc/shrc''" by code_simp
  have r1: "\<exists>s. Detect ?e1 = Inr s \<and> name s = shPosix \<and> initFile s = ''.shinit''"
    using Detect_posix [OF a1, of "''dash''"] a2 a3 by simp
  have r2: "\<exists>s. Detect ?e2 = Inr s \<and> name s = shPosix \<and> initFile s = ''/etc/shrc''"
    using Detect_posix [OF b1, of "''sh''"] b2 b3 by simp
  from a1 a2 b1 b2 r1 r2 show ?thesis by blast
qed

subsection \<open>When detection fails\<close>



subsection \<open>The exclusion filter\<close>

text \<open>
  Claim C9. For every sequence \<open>s\<close> and every exclusion list \<open>elems\<close>, the result of
  \<open>exclude\<close> is \<open>s\<close> with exactly the elements occurring in \<open>elems\<close> deleted, the
  survivors in their original relative order (it is the order-preserving filter of \<open>s\<close>);
  it shares no element with \<open>elems\<close>; and its length is the length of \<open>s\<close> minus the
  number of positions of \<open>s\<close>, duplicates counted, that hold an element of \<open>elems\<close>.
\<close>

theorem exclude_order_disjoint_length:
  "exclude s elems = filter (\<lambda>x. x \<notin> set elems) s
   \<and> set (exclude s elems) \<inter> set elems = {}
   \<and> length (exclude s elems) = length s - length (filter (\<lambda>x. x \<in> set elems) s)"
proof -
  have eq: "exclude s elems = filter (\<lambda>x. x \<notin> set elems) s"
    by (rule exclude_filter)
  have disj: "set (exclude s elems) \<inter> set elems = {}"
    unfolding eq by auto
  have len: "length (exclude s elems) = length s - length (filter (\<lambda>x. x \<in> set elems) s)"
    unfolding eq by (rule length_filter_split)
  from eq disj len show ?thesis by blast
qed

subsection \<open>The unknown family\<close>

text \<open>
  Claim C10. Let \<^verbatim>\<open>Detect\<close> return a Shell of the unknown family, and let the caller
  set any two hooks. Then the native init file is the empty path, and
  \<^verbatim>\<open>ExecCommand\<close> returns the plain \<open>exec\<close> followed by the path of the shell, whatever
  the operating system answers. The routes: with a non-empty hook the composer
  reads the empty path, and when that read fails \<^verbatim>\<open>writeHooks\<close> returns the error
  after this one call; with both hooks empty the target of the write is the
  temporary directory itself (its cleaned path), and when that write fails
  \<^verbatim>\<open>writeHooks\<close> returns the wrapped error; and whatever \<^verbatim>\<open>writeHooks\<close> returns, the
  command is the plain one (the default branch of the switch, if no error).
\<close>

theorem unknown_family_plain_exec:
  assumes det: "Detect env = Inr s0" and unk: "name s0 = shUnknown"
  shows "initFile s0 = []
     \<and> fst (ExecCommand env (withHooks s0 pre post)) = ''exec '' @ path s0
     \<and> ((TrimSpace pre \<noteq> [] \<or> TrimSpace post \<noteq> []) \<longrightarrow>
          (\<forall>e. readFile env [] = Inl e \<longrightarrow>
             writeHooks env (withHooks s0 pre post)
               = (Some e, withHooks s0 pre post, [ReadFile []])))
     \<and> (TrimSpace pre = [] \<and> TrimSpace post = [] \<longrightarrow>
          (\<forall>tmp e. mkdirTemp env [] ''devbox'' = Inr tmp \<longrightarrow>
             writeFile env (Clean tmp) [] 384 = Some e \<longrightarrow>
             writeHooks env (withHooks s0 pre post)
               = (Some (Err (''write to shell init file: '' @ errorMessage e)),
                  withHooks s0 pre post,
                  [MkdirTemp [] ''devbox'', WriteFile (Clean tmp) [] 384])))"
proof -
  let ?s = "withHooks s0 pre post"
  have i0: "initFile s0 = []" by (rule Detect_unknown_initFile [OF det unk])
  have f: "name ?s = shUnknown" "path ?s = path s0" "initFile ?s = []"
    "PreInitHook ?s = pre" "PostInitHook ?s = post"
    using unk i0 by (simp_all add: withHooks_def)
  have plain: "fst (ExecCommand env ?s) = ''exec '' @ path s0"
    using ExecCommand_unknown [OF f(1), of env] f(2) by simp
  have r1: "writeHooks env ?s = (Some e, ?s, [ReadFile []])"
    if "TrimSpace pre \<noteq> [] \<or> TrimSpace post \<noteq> []" "readFile env [] = Inl e" for e
    using that f(3-5) by (auto simp add: writeHooks_def buildInitFile_def Let_def)
  have r2: "writeHooks env ?s
               = (Some (Err (''write to shell init file: '' @ errorMessage e)), ?s,
                  [MkdirTemp [] ''devbox'', WriteFile (Clean tmp) [] 384])"
    if "TrimSpace pre = [] \<and> TrimSpace post = []" "mkdirTemp env [] ''devbox'' = Inr tmp"
      "writeFile env (Clean tmp) [] 384 = Some e" for tmp e
    using that f(3-5)
    by (simp add: writeHooks_def buildInitFile_def Let_def Join_tmp_dot bytesOf_def)
  from i0 plain r1 r2 show ?thesis by blast
qed

text \<open>
  The signal \<open>/usr/bin/fish\<close> on the example host, once with the pre-hook \<open>echo hi\<close>
  and once with no hook.
\<close>

theorem unknown_family_plain_exec_witness:
  "Detect (setenv exampleOS ''SHELL'' ''/usr/bin/fish'') = Inr exampleFish
   \<and> name exampleFish = shUnknown
   \<and> initFile exampleFish = []
   \<and> fst (ExecCommand (setenv exampleOS ''SHELL'' ''/usr/bin/fish'')
            (withHooks exampleFish ''echo hi'' [])) = ''exec /usr/bin/fish''
   \<and> fst (ExecCommand (setenv exampleOS ''SHELL'' ''/usr/bin/fish'')
            (withHooks exampleFish [] [])) = ''exec /usr/bin/fish''
   \<and> writeHooks (setenv exampleOS ''SHELL'' ''/usr/bin/fish'')
        (withHooks exampleFish ''echo hi'' [])
       = (Some (Err ''no such file or directory''), withHooks exampleFish ''echo hi'' [],
          [ReadFile []])
   \<and> writeHooks (setenv exampleOS ''SHELL'' ''/usr/bin/fish'') (withHooks exampleFish [] [])
       = (Some (Err ''write to shell init file: is a directory''),
          withHooks exampleFish [] [],
          [MkdirTemp [] ''devbox'', WriteFile ''/tmp/devbox123'' [] 384])"
proof -
  let ?env = "setenv exampleOS ''SHELL'' ''/usr/bin/fish''"
  have d: "Detect ?env = Inr exampleFish" by code_simp
  have u: "name exampleFish = shUnknown" by code_simp
  have p: "path exampleFish = ''/usr/bin/fish''" by code_simp
  have a1: "TrimSpace ''echo hi'' \<noteq> [] \<or> TrimSpace [] \<noteq> []" by code_simp
  have a2: "readFile ?env [] = Inl (Err ''no such file or directory'')" by code_simp
  have b1: "TrimSpace [] = [] \<and> TrimSpace [] = []" by code_simp
  have b2: "mkdirTemp ?env [] ''devbox'' = Inr ''/tmp/devbox123''" by code_simp
  have b3: "writeFile ?env (Clean ''/tmp/devbox123'') [] 384 = Some (Err ''is a directory'')"
    by code_simp
  have c: "Clean ''/tmp/devbox123'' = ''/tmp/devbox123''" by code_simp
  have m: "errorMessage (Err ''is a directory'') = ''is a directory''" by simp
  note t1 = unknown_family_plain_exec [OF d u, of "''echo hi''" "[]"]
  note t2 = unknown_family_plain_exec [OF d u, of "[]" "[]"]
  from t1 a1 a2 have w1: "writeHooks ?env (withHooks exampleFish ''echo hi'' [])
       = (Some (Err ''no such file or directory''), withHooks exampleFish ''echo hi'' [],
          [ReadFile []])" by blast
  from t2 b1 b2 b3 have "writeHooks ?env (withHooks exampleFish [] [])
       = (Some (Err (''write to shell init file: '' @ errorMessage (Err ''is a directory''))),
          withHooks exampleFish [] [],
          [MkdirTemp [] ''devbox'', WriteFile (Clean ''/tmp/devbox123'') [] 384])" by blast
  then have w2: "writeHooks ?env (withHooks exampleFish [] [])
       = (Some (Err ''write to shell init file: is a directory''),
          withHooks exampleFish [] [],
          [MkdirTemp [] ''devbox'', WriteFile ''/tmp/devbox123'' [] 384])"
    by (simp only: c m) simp
  from t1 t2 p d u w1 w2 show ?thesis by simp
qed

end
